theory Spec2Isabelle
  imports Main "HOL-Library.Word"
begin

section \<open>Values\<close>

text \<open>
  The fetch wrapper is TypeScript. Its values are modelled by two datatypes: the
  primitive values that can stand in a query mapping, and the structured values that a
  JSON body, a request payload or a caught exception can be. Numbers are the integers
  from \<open>-2^53\<close> to \<open>2^53 - 1\<close>, held as two's-complement values of 54 bits and
  read with \<open>sint\<close>: a JavaScript number holds each of them exactly and prints each
  of them in plain decimal digits. Strings are lists of characters.
\<close>

datatype scalar = JUndefined | JNull | JBool bool | JNum "54 word" | JStr string

datatype jsval = Prim scalar | Arr "jsval list" | Obj "(string \<times> jsval) list" | Err string

definition digit_char :: "nat \<Rightarrow> char" where
  "digit_char d = ''0123456789'' ! d"

function nat_digits :: "nat \<Rightarrow> string" where
  "nat_digits n = (if n < 10 then [digit_char n] else nat_digits (n div 10) @ [digit_char (n mod 10)])"
  by pat_completeness auto
termination
  by (relation "measure id") auto

text \<open>
  \<open>Number.prototype.toString\<close> on the integers of \<open>JNum\<close>: an optional minus sign
  and the decimal digits.
\<close>

definition number_toString :: "54 word \<Rightarrow> string" where
  "number_toString w =
     (let n = sint w in if n < 0 then ''-'' @ nat_digits (nat (- n)) else nat_digits (nat n))"

text \<open>A template-literal hole \<open>${v}\<close> holding a primitive value.\<close>

fun template :: "scalar \<Rightarrow> string" where
  "template JUndefined = ''undefined''"
| "template JNull = ''null''"
| "template (JBool b) = (if b then ''true'' else ''false'')"
| "template (JNum n) = number_toString n"
| "template (JStr s) = s"

text \<open>A template-literal hole holding a value of type \<open>string | undefined\<close>.\<close>

fun hole :: "string option \<Rightarrow> string" where
  "hole None = ''undefined''"
| "hole (Some s) = s"

section \<open>Environment and enumerations\<close>

text \<open>The four variables of \<open>process.env\<close> that the module reads; \<open>None\<close> is an unset variable.\<close>

record env =
  DEFAULT_API_HOST :: "string option"
  DEFAULT_NODE_HOST :: "string option"
  DEFAULT_API_PORT :: "string option"
  DEFAULT_API_VERSION :: "string option"

text \<open>\<open>process.env.X || d\<close>: an unset or empty variable is falsy.\<close>

fun or_else :: "string option \<Rightarrow> string \<Rightarrow> string" where
  "or_else None d = d"
| "or_else (Some s) d = (if s = [] then d else s)"

text \<open>
  Modelled from the spec: the enumeration \<open>Service\<close> is imported from \<open>types/index\<close>,
  which is not among the sources; the spec gives it the two members PROXY and NODE.
  The source writes \<open>hostService[service || 0]\<close> to fall back to the PROXY entry, so
  PROXY is the member whose run-time value is 0, the only falsy one.
\<close>

datatype Service = PROXY | NODE

datatype Method = GET | POST | PUT | DELETE

fun Method_toString :: "Method \<Rightarrow> string" where
  "Method_toString GET = ''GET''"
| "Method_toString POST = ''POST''"
| "Method_toString PUT = ''PUT''"
| "Method_toString DELETE = ''DELETE''"

section \<open>URL builder\<close>

text \<open>
  An \<open>IQuery\<close> object is the list of its own properties in the order they were inserted;
  a well-formed one has distinct keys. \<open>Object.keys\<close> does not return plain insertion
  order: ECMAScript lists the keys that are array indices first (canonical decimal
  numerals below \<open>2^32 - 1\<close>), in ascending numeric order, and the other keys after
  them in insertion order.
\<close>

type_synonym IQuery = "(string \<times> scalar) list"

definition is_digit :: "char \<Rightarrow> bool" where
  "is_digit c = (c \<in> set ''0123456789'')"

definition digit_value :: "char \<Rightarrow> nat" where
  "digit_value c = of_char c - 48"

definition decimal_value :: "string \<Rightarrow> nat" where
  "decimal_value s = foldl (\<lambda>acc c. 10 * acc + digit_value c) 0 s"

definition is_array_index :: "string \<Rightarrow> bool" where
  "is_array_index s =
     (s \<noteq> [] \<and> list_all is_digit s \<and> (length s = 1 \<or> hd s \<noteq> CHR ''0'')
      \<and> decimal_value s < 4294967295)"

definition Object_keys :: "IQuery \<Rightarrow> string list" where
  "Object_keys q =
     sort_key decimal_value (filter is_array_index (map fst q))
     @ filter (\<lambda>k. \<not> is_array_index k) (map fst q)"

text \<open>\<open>query[key]\<close>.\<close>

definition index :: "IQuery \<Rightarrow> string \<Rightarrow> scalar" where
  "index q key = (case map_of q key of Some v \<Rightarrow> v | None \<Rightarrow> JUndefined)"

text \<open>\<open>Array.prototype.join\<close> on an array of strings.\<close>

fun join :: "string \<Rightarrow> string list \<Rightarrow> string" where
  "join sep [] = []"
| "join sep [x] = x"
| "join sep (x # y # ys) = x @ sep @ join sep (y # ys)"

definition buildUrlQuery :: "IQuery \<Rightarrow> string" where
  "buildUrlQuery q = join ''&'' (map (\<lambda>key. key @ ''='' @ template (index q key)) (Object_keys q))"

definition hostService :: "env \<Rightarrow> Service \<Rightarrow> string" where
  "hostService e s =
     (case s of
        PROXY \<Rightarrow> or_else (DEFAULT_API_HOST e) ''https://api.mainnet.klever.finance''
      | NODE \<Rightarrow> or_else (DEFAULT_NODE_HOST e) ''https://node.mainnet.klever.finance'')"

text \<open>\<open>service || 0\<close>: an undefined selector and PROXY (the value 0) both give 0.\<close>

fun service_or_0 :: "Service option \<Rightarrow> Service" where
  "service_or_0 None = PROXY"
| "service_or_0 (Some PROXY) = PROXY"
| "service_or_0 (Some NODE) = NODE"

text \<open>
  \<open>getHost\<close>, statement by statement. The route is declared \<open>string\<close>, but the value
  read through the props resolver can be undefined, and the template literal renders it
  like every other hole; so the route is a \<open>string option\<close> here too.
  \<open>host.substr(host.length - 1)\<close> is the last character (the empty string for an empty
  host) and \<open>host.substring(0, host.length - 1)\<close> is the host without it.
\<close>

definition getHost ::
  "env \<Rightarrow> string option \<Rightarrow> IQuery option \<Rightarrow> Service option \<Rightarrow> string option \<Rightarrow> string" where
  "getHost e route' query' service' apiVersion' =
     (let host = hostService e (service_or_0 service');
          port = or_else (DEFAULT_API_PORT e) [];
          host = (if drop (length host - 1) host = ''/'' then take (length host - 1) host else host);
          host = (if service' = Some PROXY
                  then host @ (if port \<noteq> [] then '':'' @ port else port) @ ''/'' @ hole apiVersion'
                  else host);
          urlParam = (case query' of None \<Rightarrow> [] | Some q \<Rightarrow> ''?'' @ buildUrlQuery q)
      in host @ ''/'' @ hole route' @ urlParam)"

section \<open>Props resolver\<close>

text \<open>
  A request descriptor is an object in which every field of \<open>IProps\<close> is either not a
  key at all (\<open>Missing\<close>) or a key with a value, and the value of a key can be undefined
  (\<open>Given None\<close>), as in \<open>{route: "/x", apiVersion: undefined}\<close>. A property name is the
  selector of its field.
\<close>

datatype 'a slot = Missing | Given "'a option"

record IProps =
  route :: "string slot"
  query :: "IQuery slot"
  body :: "jsval slot"
  apiVersion :: "string slot"
  service :: "Service slot"
  refreshTime :: "int slot"

text \<open>\<open>name in target\<close> and \<open>target[name]\<close>.\<close>

definition has_key :: "'a slot \<Rightarrow> bool" where
  "has_key s = (s \<noteq> Missing)"

fun read_key :: "'a slot \<Rightarrow> 'a option" where
  "read_key Missing = None"
| "read_key (Given v) = v"

definition defaultValues :: "env \<Rightarrow> IProps" where
  "defaultValues e =
     \<lparr> route = Given (Some ''/''),
       query = Missing,
       body = Missing,
       apiVersion = Given (Some (or_else (DEFAULT_API_VERSION e) ''v1.0'')),
       service = Given (Some PROXY),
       refreshTime = Given (Some 60) \<rparr>"

text \<open>The \<open>get\<close> trap of the proxy handler; \<open>None\<close> is undefined.\<close>

definition get :: "env \<Rightarrow> IProps \<Rightarrow> (IProps \<Rightarrow> 'a slot) \<Rightarrow> 'a option" where
  "get e target name =
     (if has_key (name target) then read_key (name target)
      else if has_key (name (defaultValues e)) then read_key (name (defaultValues e))
      else None)"

text \<open>\<open>new Proxy(props, {get})\<close>: every property read goes through the trap.\<close>

definition getProps :: "env \<Rightarrow> IProps \<Rightarrow> (IProps \<Rightarrow> 'a slot) \<Rightarrow> 'a option" where
  "getProps e props name = get e props name"

section \<open>Promises\<close>

text \<open>
  Execution is single-threaded and event-driven, and the module shares no state between
  calls, so a promise is described by the one thing that ever happens to it: it never
  settles, or it is fulfilled with a value, or it is rejected with a reason, at some
  number of time units after the call that made it. Time is counted in the units of
  \<open>setTimeout\<close>.
\<close>

datatype 'a promise = Never | Fulfils nat 'a | Rejects nat jsval

fun settles_at :: "'a promise \<Rightarrow> nat option" where
  "settles_at Never = None"
| "settles_at (Fulfils t v) = Some t"
| "settles_at (Rejects t r) = Some t"

text \<open>A promise made \<open>d\<close> units after the start.\<close>

fun later :: "nat \<Rightarrow> 'a promise \<Rightarrow> 'a promise" where
  "later d Never = Never"
| "later d (Fulfils t v) = Fulfils (d + t) v"
| "later d (Rejects t r) = Rejects (d + t) r"

text \<open>
  The body of an \<open>async\<close> function is a computation in the same shape: it suspends for
  ever at an \<open>await\<close> (\<open>Never\<close>), or it reaches \<open>return x\<close> at some time
  (\<open>Fulfils t x\<close>), or it throws at some time (\<open>Rejects t r\<close>).
  \<open>await p\<close> followed by the rest of the block: a rejected \<open>p\<close> throws at the
  \<open>await\<close>.
\<close>

fun await :: "'a promise \<Rightarrow> ('a \<Rightarrow> 'b promise) \<Rightarrow> 'b promise" where
  "await Never rest = Never"
| "await (Fulfils t v) rest = later t (rest v)"
| "await (Rejects t r) rest = Rejects t r"

definition return :: "'a \<Rightarrow> 'a promise" where
  "return x = Fulfils 0 x"

definition throw :: "jsval \<Rightarrow> 'a promise" where
  "throw r = Rejects 0 r"

text \<open>\<open>try { block } catch (error) { handler }\<close>: the handler runs when the block throws.\<close>

fun try_catch :: "'a promise \<Rightarrow> (jsval \<Rightarrow> 'a promise) \<Rightarrow> 'a promise" where
  "try_catch Never handler = Never"
| "try_catch (Fulfils t x) handler = Fulfils t x"
| "try_catch (Rejects t r) handler = later t (handler r)"

text \<open>
  The promise of an \<open>async\<close> function whose every \<open>return\<close> hands back a promise: the
  function's promise is resolved with the returned one and follows it, whatever it does,
  from the moment of the \<open>return\<close>. A body that throws rejects the function's promise.
\<close>

fun async :: "'a promise promise \<Rightarrow> 'a promise" where
  "async Never = Never"
| "async (Fulfils t p) = later t p"
| "async (Rejects t r) = Rejects t r"

text \<open>\<open>Promise.resolve(v)\<close> for a value that is not a promise.\<close>

definition Promise_resolve :: "'a \<Rightarrow> 'a promise" where
  "Promise_resolve v = Fulfils 0 v"

text \<open>
  \<open>Promise.race\<close>: the result follows the promise of the array whose settling event
  runs first. Of two promises that settle at different times that is the earlier one.
  Of two that are due at the same time it is the one whose event the platform's event
  loop runs first, which the times do not tell (a timer set earlier fires before a timer
  set later for the same moment): \<open>tie\<close> says whether it is the promise that stands
  earlier in the array, and every statement about a race is made for both answers.
\<close>

definition first_settled :: "bool \<Rightarrow> 'a promise \<Rightarrow> 'a promise \<Rightarrow> 'a promise" where
  "first_settled tie p q =
     (case settles_at p of
        None \<Rightarrow> q
      | Some t \<Rightarrow>
          (case settles_at q of
             None \<Rightarrow> p
           | Some u \<Rightarrow> if t < u then p else if u < t then q else if tie then p else q))"

fun Promise_race :: "bool \<Rightarrow> 'a promise list \<Rightarrow> 'a promise" where
  "Promise_race tie [] = Never"
| "Promise_race tie (p # ps) = first_settled tie p (Promise_race tie ps)"

section \<open>Request executors\<close>

text \<open>
  The HTTP primitive and \<open>JSON.stringify\<close> belong to the platform and are parameters of
  the executors. A response carries its \<open>ok\<close> flag and what its \<open>json()\<close> and \<open>text()\<close>
  calls do; \<open>JSON.stringify\<close> returns a string or undefined, or throws.
\<close>

record Response =
  ok :: bool
  json :: "jsval promise"
  text_body :: "string promise"

record RequestInit =
  init_method :: string
  init_headers :: "(string \<times> string) list"
  init_body :: "string option"

type_synonym fetch_fn = "string \<Rightarrow> RequestInit \<Rightarrow> Response promise"

type_synonym stringify_fn = "jsval option \<Rightarrow> jsval + string option"

text \<open>
  The member access \<open>(v).error\<close>: a TypeError on null and undefined, the own property
  of an object, and undefined on every other value.
\<close>

fun dot_error :: "jsval \<Rightarrow> jsval + jsval" where
  "dot_error (Prim JUndefined) = Inl (Err ''TypeError'')"
| "dot_error (Prim JNull) = Inl (Err ''TypeError'')"
| "dot_error (Obj kvs) = Inr (case map_of kvs ''error'' of Some v \<Rightarrow> v | None \<Rightarrow> Prim JUndefined)"
| "dot_error v = Inr (Prim JUndefined)"

text \<open>The object literal \<open>{ data: null, error, code: 'internal_error' }\<close>.\<close>

definition envelope :: "jsval \<Rightarrow> jsval" where
  "envelope error = Obj [(''data'', Prim JNull), (''error'', error), (''code'', Prim (JStr ''internal_error''))]"

definition withoutBody :: "env \<Rightarrow> fetch_fn \<Rightarrow> IProps \<Rightarrow> Method \<Rightarrow> jsval promise" where
  "withoutBody e fetch props method' =
     async (try_catch
       (let route' = getProps e props route;
            query' = getProps e props query;
            service' = getProps e props service;
            apiVersion' = getProps e props apiVersion
        in await (fetch (getHost e route' query' service' apiVersion')
                    \<lparr> init_method = Method_toString method',
                      init_headers = [(''Content-Type'', ''application/json'')],
                      init_body = None \<rparr>)
             (\<lambda>response.
                if \<not> ok response then
                  await (json response)
                    (\<lambda>parsed. case dot_error parsed of
                        Inl r \<Rightarrow> throw r
                      | Inr error \<Rightarrow> return (Promise_resolve (envelope error)))
                else return (json response)))
       (\<lambda>error. return (Promise_resolve (envelope error))))"

definition withBody :: "env \<Rightarrow> fetch_fn \<Rightarrow> stringify_fn \<Rightarrow> IProps \<Rightarrow> Method \<Rightarrow> jsval promise" where
  "withBody e fetch JSON_stringify props method' =
     async (try_catch
       (let route' = getProps e props route;
            body' = getProps e props body;
            query' = getProps e props query;
            service' = getProps e props service;
            apiVersion' = getProps e props apiVersion
        in case JSON_stringify body' of
             Inl r \<Rightarrow> throw r
           | Inr serialized \<Rightarrow>
               await (fetch (getHost e route' query' service' apiVersion')
                        \<lparr> init_method = Method_toString method',
                          init_headers = [(''Content-Type'', ''application/json'')],
                          init_body = serialized \<rparr>)
                 (\<lambda>response.
                    if \<not> ok response then
                      await (json response)
                        (\<lambda>parsed. case dot_error parsed of
                            Inl r \<Rightarrow> throw r
                          | Inr error \<Rightarrow> return (Promise_resolve (envelope error)))
                    else return (json response)))
       (\<lambda>error. return (Promise_resolve (envelope error))))"

definition withText :: "env \<Rightarrow> fetch_fn \<Rightarrow> IProps \<Rightarrow> Method \<Rightarrow> jsval promise" where
  "withText e fetch props method' =
     async (try_catch
       (let route' = getProps e props route;
            query' = getProps e props query;
            service' = getProps e props service;
            apiVersion' = getProps e props apiVersion
        in await (fetch (getHost e route' query' service' apiVersion')
                    \<lparr> init_method = Method_toString method',
                      init_headers = [(''Content-Type'', ''application/json'')],
                      init_body = None \<rparr>)
             (\<lambda>response.
                if \<not> ok response then
                  await (json response)
                    (\<lambda>parsed. case dot_error parsed of
                        Inl r \<Rightarrow> throw r
                      | Inr error \<Rightarrow> return (Promise_resolve (envelope error)))
                else return (map_promise (\<lambda>s. Prim (JStr s)) (text_body response))))
       (\<lambda>error. return (Promise_resolve (envelope error))))"

section \<open>Timeout racer and facade\<close>

definition timeout_envelope :: jsval where
  "timeout_envelope =
     Obj [(''data'', Prim JNull), (''error'', Prim (JStr ''Fetch timeout'')), (''code'', Prim (JStr ''internal_error''))]"

text \<open>
  The delay of \<open>setTimeout\<close> is a signed 32-bit integer: a timer set for \<open>d\<close> units
  fires at \<open>d\<close> when \<open>d\<close> is below \<open>2^31\<close>, and at once when it is not.
\<close>

definition setTimeout_delay :: "nat \<Rightarrow> nat" where
  "setTimeout_delay d = (if d < 2147483648 then d else 0)"

text \<open>
  \<open>withTimeout(promise, timeout = 10000)\<close>; \<open>None\<close> is a call that leaves the second
  argument out. The timer promise is fulfilled with the envelope when the timer fires.
\<close>

definition withTimeout :: "bool \<Rightarrow> jsval promise \<Rightarrow> nat option \<Rightarrow> jsval promise" where
  "withTimeout tie promise' timeout' =
     (let timeout = (case timeout' of None \<Rightarrow> 10000 | Some t \<Rightarrow> t)
      in async (return (Promise_race tie
           [promise', Fulfils (setTimeout_delay timeout) timeout_envelope])))"

definition api_get :: "bool \<Rightarrow> env \<Rightarrow> fetch_fn \<Rightarrow> IProps \<Rightarrow> jsval promise" where
  "api_get tie e fetch props = async (return (withTimeout tie (withoutBody e fetch props GET) None))"

definition api_post :: "bool \<Rightarrow> env \<Rightarrow> fetch_fn \<Rightarrow> stringify_fn \<Rightarrow> IProps \<Rightarrow> jsval promise" where
  "api_post tie e fetch JSON_stringify props =
     async (return (withTimeout tie (withBody e fetch JSON_stringify props POST) None))"

definition api_text :: "bool \<Rightarrow> env \<Rightarrow> fetch_fn \<Rightarrow> IProps \<Rightarrow> jsval promise" where
  "api_text tie e fetch props = async (return (withTimeout tie (withText e fetch props GET) None))"

section \<open>Sample inputs\<close>

text \<open>An environment with no variable set, a descriptor that gives only a route, and two responses.\<close>

definition e0 :: env where
  "e0 = \<lparr> DEFAULT_API_HOST = None, DEFAULT_NODE_HOST = None, DEFAULT_API_PORT = None,
          DEFAULT_API_VERSION = None \<rparr>"

definition props0 :: IProps where
  "props0 = \<lparr> route = Given (Some ''/x''), query = Missing, body = Missing, apiVersion = Missing,
              service = Missing, refreshTime = Missing \<rparr>"

definition bad_response :: Response where
  "bad_response =
     \<lparr> ok = False, json = Fulfils 1 (Obj [(''error'', Prim (JStr ''bad''))]), text_body = Fulfils 1 ''bad'' \<rparr>"

definition good_response :: Response where
  "good_response =
     \<lparr> ok = True, json = Fulfils 1 (Obj [(''x'', Prim (JNum 1))]), text_body = Fulfils 1 ''x is 1'' \<rparr>"

definition malformed_response :: Response where
  "malformed_response =
     \<lparr> ok = True, json = Rejects 1 (Err ''SyntaxError''), text_body = Rejects 1 (Err ''TypeError'') \<rparr>"

section \<open>Basic facts\<close>

lemma later_0 [simp]: "later 0 p = p"
  by (cases p) simp_all

lemma later_Rejects: "later d p = Rejects T r \<Longrightarrow> \<exists>u. p = Rejects u r \<and> T = d + u"
  by (cases p) simp_all

lemma strip_last:
  "(if drop (length h - 1) h = ''/'' then take (length h - 1) h else h)
     = (if h \<noteq> [] \<and> last h = CHR ''/'' then butlast h else h)" for h :: string
proof (cases h rule: rev_cases)
  case Nil
  then show ?thesis by simp
next
  case (snoc ys y)
  then show ?thesis by (simp add: butlast_conv_take)
qed

text \<open>The URL in one piece: stripped host, the PROXY segment, route, query string.\<close>

lemma getHost_closed_form:
  "getHost e r q s v =
     (let h = hostService e (service_or_0 s) in if h \<noteq> [] \<and> last h = CHR ''/'' then butlast h else h)
     @ (if s = Some PROXY
        then (if or_else (DEFAULT_API_PORT e) [] \<noteq> [] then '':'' @ or_else (DEFAULT_API_PORT e) [] else [])
             @ ''/'' @ hole v
        else [])
     @ ''/'' @ hole r @ (case q of None \<Rightarrow> [] | Some x \<Rightarrow> ''?'' @ buildUrlQuery x)"
  unfolding getHost_def Let_def strip_last by simp

lemmas query_eval = buildUrlQuery_def index_def Object_keys_def
  is_array_index_def is_digit_def decimal_value_def digit_value_def

lemma index_distinct:
  assumes "distinct (map fst q)" and "(k, v) \<in> set q"
  shows "index q k = v"
  using assms by (simp add: index_def)

lemma render_pairs:
  assumes "distinct (map fst q)" and "set ps \<subseteq> set q"
  shows "map (\<lambda>key. key @ ''='' @ template (index q key)) (map fst ps)
         = map (\<lambda>(k, val). k @ ''='' @ template val) ps"
  using assms by (auto simp: index_distinct)

lemma insort_key_map: "map g (insort_key (\<lambda>a. f (g a)) x xs) = insort_key f (g x) (map g xs)"
  by (induction xs) simp_all

lemma sort_key_map: "map g (sort_key (\<lambda>a. f (g a)) xs) = sort_key f (map g xs)"
  by (induction xs) (simp_all add: insort_key_map)

text \<open>The keys that \<open>Object.keys\<close> lists are the first components of the reordered pairs.\<close>

lemma Object_keys_pairs:
  "Object_keys q =
     map fst (sort_key (decimal_value \<circ> fst) (filter (is_array_index \<circ> fst) q)
              @ filter (\<lambda>p. \<not> is_array_index (fst p)) q)"
proof -
  have "sort_key decimal_value (filter is_array_index (map fst q))
        = map fst (sort_key (decimal_value \<circ> fst) (filter (is_array_index \<circ> fst) q))"
    by (simp add: filter_map sort_key_map comp_def)
  moreover have "filter (\<lambda>k. \<not> is_array_index k) (map fst q)
        = map fst (filter (\<lambda>p. \<not> is_array_index (fst p)) q)"
    by (simp add: filter_map comp_def)
  ultimately show ?thesis
    by (simp add: Object_keys_def)
qed

lemma buildUrlQuery_pairs:
  assumes "distinct (map fst q)"
  shows "buildUrlQuery q =
           join ''&'' (map (\<lambda>(k, val). k @ ''='' @ template val)
             (sort_key (decimal_value \<circ> fst) (filter (is_array_index \<circ> fst) q)
              @ filter (\<lambda>p. \<not> is_array_index (fst p)) q))"
proof -
  let ?ps = "sort_key (decimal_value \<circ> fst) (filter (is_array_index \<circ> fst) q)
              @ filter (\<lambda>p. \<not> is_array_index (fst p)) q"
  have "set ?ps \<subseteq> set q"
    by auto
  from assms this
  have eq: "map (\<lambda>key. key @ ''='' @ template (index q key)) (map fst ?ps)
            = map (\<lambda>(k, val). k @ ''='' @ template val) ?ps"
    by (rule render_pairs)
  show ?thesis
    unfolding buildUrlQuery_def Object_keys_pairs eq ..
qed

text \<open>
  The timeout racer for a delay that fits the timer: the operation when it settles
  earlier, the envelope when it settles later or never, and the run-first promise at a tie.
\<close>

lemma withTimeout_cases:
  assumes "d < 2147483648"
  shows "withTimeout tie p (Some d) =
     (case settles_at p of
        None \<Rightarrow> Fulfils d timeout_envelope
      | Some t \<Rightarrow> if t < d then p else if d < t then Fulfils d timeout_envelope
                  else if tie then p else Fulfils d timeout_envelope)"
  using assms
  by (cases p) (simp_all add: withTimeout_def return_def first_settled_def setTimeout_delay_def)

lemma withTimeout_default: "withTimeout tie p None = withTimeout tie p (Some 10000)"
  by (simp add: withTimeout_def)

lemma withoutBody_pending:
  assumes "\<And>url init. fetch url init = Never"
  shows "withoutBody e fetch props m = Never"
  using assms by (simp add: withoutBody_def)

lemma withText_pending:
  assumes "\<And>url init. fetch url init = Never"
  shows "withText e fetch props m = Never"
  using assms by (simp add: withText_def)

lemma withBody_pending:
  assumes "\<And>url init. fetch url init = Never"
    and "JSON_stringify (getProps e props body) = Inr serialized"
  shows "withBody e fetch JSON_stringify props m = Never"
  using assms by (simp add: withBody_def)

lemma withoutBody_failure:
  assumes "\<And>url init. fetch url init = Fulfils t response" and "\<not> ok response"
    and "json response = Fulfils u parsed" and "dot_error parsed = Inr error"
  shows "withoutBody e fetch props m = Fulfils (t + u) (envelope error)"
  using assms by (simp add: withoutBody_def return_def Promise_resolve_def)

lemma withBody_failure:
  assumes "\<And>url init. fetch url init = Fulfils t response" and "\<not> ok response"
    and "json response = Fulfils u parsed" and "dot_error parsed = Inr error"
    and "JSON_stringify (getProps e props body) = Inr serialized"
  shows "withBody e fetch JSON_stringify props m = Fulfils (t + u) (envelope error)"
  using assms by (simp add: withBody_def return_def Promise_resolve_def)

lemma withText_failure:
  assumes "\<And>url init. fetch url init = Fulfils t response" and "\<not> ok response"
    and "json response = Fulfils u parsed" and "dot_error parsed = Inr error"
  shows "withText e fetch props m = Fulfils (t + u) (envelope error)"
  using assms by (simp add: withText_def return_def Promise_resolve_def)

section \<open>Props resolver: claims\<close>

text \<open>
  Claim C1. The descriptor returned by \<open>getProps\<close> is a transparent read-through. For
  every environment and every descriptor: a field that the caller set reads as the
  caller's value; the unset fields \<open>route\<close>, \<open>service\<close>, \<open>apiVersion\<close> and
  \<open>refreshTime\<close> (the refresh interval) read as their defaults \<open>"/"\<close>, PROXY, the
  environment's version or \<open>"v1.0"\<close>, and 60; and \<open>query\<close> and \<open>body\<close>, which the
  default table does not have, read as undefined when unset.
\<close>

theorem getProps_read_through:
  "getProps e props route = (case route props of Missing \<Rightarrow> Some ''/'' | Given v \<Rightarrow> v)
   \<and> getProps e props service = (case service props of Missing \<Rightarrow> Some PROXY | Given v \<Rightarrow> v)
   \<and> getProps e props apiVersion =
       (case apiVersion props of
          Missing \<Rightarrow>
            Some (case DEFAULT_API_VERSION e of None \<Rightarrow> ''v1.0'' | Some s \<Rightarrow> if s = [] then ''v1.0'' else s)
        | Given v \<Rightarrow> v)
   \<and> getProps e props refreshTime = (case refreshTime props of Missing \<Rightarrow> Some 60 | Given v \<Rightarrow> v)
   \<and> getProps e props query = (case query props of Missing \<Rightarrow> None | Given v \<Rightarrow> v)
   \<and> getProps e props body = (case body props of Missing \<Rightarrow> None | Given v \<Rightarrow> v)"
  by (simp add: getProps_def get_def has_key_def defaultValues_def split: slot.splits option.splits)

text \<open>
  Claim C9. A field that is a key of the descriptor with the value undefined counts as
  set, because presence is tested with \<open>in\<close>: the resolver reads it as undefined and
  does not fall back to the default table. The example is
  \<open>{route: "/x", apiVersion: undefined}\<close>, against the same descriptor without the key.
\<close>

theorem getProps_explicit_undefined:
  assumes "name props = Given None"
  shows "has_key (name props) \<and> getProps e props name = None"
  using assms by (simp add: getProps_def get_def has_key_def)

theorem getProps_explicit_undefined_witness:
  "apiVersion (props0\<lparr>apiVersion := Given None\<rparr>) = Given None
   \<and> getProps e0 (props0\<lparr>apiVersion := Given None\<rparr>) apiVersion = None
   \<and> getProps e0 props0 apiVersion = Some ''v1.0''"
  using getProps_explicit_undefined [of apiVersion "props0\<lparr>apiVersion := Given None\<rparr>" e0]
  by (simp add: getProps_def get_def has_key_def defaultValues_def e0_def props0_def)

section \<open>URL builder: claims\<close>

text \<open>
  Claim C6, as the specification states it: for a non-empty query mapping the query
  string is the \<open>key=value\<close> pairs in key insertion order, joined by \<open>&\<close> after a
  \<open>?\<close>, keys and values verbatim. The code enumerates the keys with \<open>Object.keys\<close>,
  which puts array-index keys first: for the mapping \<open>{b: "x", 1: "y"}\<close> the URL ends
  in \<open>?1=y&b=x\<close>, not in \<open>?b=x&1=y\<close>.
\<close>

theorem query_in_insertion_order_counterexample:
  "getHost e0 (Some ''r'') (Some [(''b'', JStr ''x''), (''1'', JStr ''y'')]) (Some NODE) None
     = ''https://node.mainnet.klever.finance/r?1=y&b=x''
   \<and> getHost e0 (Some ''r'') (Some [(''b'', JStr ''x''), (''1'', JStr ''y'')]) (Some NODE) None
     \<noteq> getHost e0 (Some ''r'') None (Some NODE) None
         @ ''?'' @ join ''&'' (map (\<lambda>(k, val). k @ ''='' @ template val) [(''b'', JStr ''x''), (''1'', JStr ''y'')])"
  by (simp add: getHost_closed_form hostService_def e0_def query_eval)

text \<open>
  Claim C6, amended. For every query mapping (an object, so its keys are distinct), the
  URL is the URL without a query followed by \<open>?\<close> and the \<open>key=value\<close> pairs joined
  by \<open>&\<close>, in the order of \<open>Object.keys\<close>: first the pairs whose keys are array
  indices, in ascending numeric order of the key, then the other pairs in key insertion
  order. Every key stands as it is and every value as the template literal renders it (a
  string value is its own text, see \<open>template\<close>), with no encoding step in between.
  Whenever the mapping was built with its array-index keys first and ascending, and so
  whenever it has none, that order is the key insertion order.
\<close>

theorem query_in_Object_keys_order:
  fixes q :: IQuery
  defines "indexed \<equiv> filter (\<lambda>(k, val). is_array_index k) q"
  defines "named \<equiv> filter (\<lambda>(k, val). \<not> is_array_index k) q"
  defines "ordered \<equiv> sort_key (\<lambda>(k, val). decimal_value k) indexed"
  assumes "distinct (map fst q)"
  shows "getHost e r (Some q) s v
           = getHost e r None s v @ ''?''
             @ join ''&'' (map (\<lambda>(k, val). k @ ''='' @ template val) (ordered @ named))
     \<and> sorted (map (\<lambda>(k, val). decimal_value k) ordered)
     \<and> set ordered = set indexed \<and> length ordered = length indexed
     \<and> (q = indexed @ named \<and> sorted (map (\<lambda>(k, val). decimal_value k) indexed) \<longrightarrow>
          getHost e r (Some q) s v
            = getHost e r None s v @ ''?'' @ join ''&'' (map (\<lambda>(k, val). k @ ''='' @ template val) q))"
proof -
  have forms: "(\<lambda>(k, val). is_array_index k) = is_array_index \<circ> fst"
    "(\<lambda>(k, val). \<not> is_array_index k) = (\<lambda>p. \<not> is_array_index (fst p))"
    "(\<lambda>(k, val). decimal_value k) = decimal_value \<circ> (fst :: string \<times> scalar \<Rightarrow> string)"
    by (simp_all add: fun_eq_iff)
  have url: "getHost e r (Some q) s v
      = getHost e r None s v @ ''?''
        @ join ''&'' (map (\<lambda>(k, val). k @ ''='' @ template val) (ordered @ named))"
    unfolding ordered_def indexed_def named_def forms
    by (simp add: getHost_closed_form buildUrlQuery_pairs [OF assms(4)])
  have same: "ordered = indexed" if "sorted (map (\<lambda>(k, val). decimal_value k) indexed)"
    unfolding ordered_def using that by (rule sort_key_id_if_sorted)
  have "sorted (map (\<lambda>(k, val). decimal_value k) ordered)"
    unfolding ordered_def by simp
  moreover have "set ordered = set indexed \<and> length ordered = length indexed"
    unfolding ordered_def by simp
  moreover have "getHost e r (Some q) s v
      = getHost e r None s v @ ''?'' @ join ''&'' (map (\<lambda>(k, val). k @ ''='' @ template val) q)"
    if "q = indexed @ named" and "sorted (map (\<lambda>(k, val). decimal_value k) indexed)"
    using url same [OF that(2)] that(1) by simp
  ultimately show ?thesis
    using url by blast
qed

theorem query_in_Object_keys_order_witness:
  "distinct (map fst [(''b'', JStr ''a b&c''), (''10'', JNum 7), (''2'', JNull)])
   \<and> getHost e0 (Some ''r'') (Some [(''b'', JStr ''a b&c''), (''10'', JNum 7), (''2'', JNull)]) (Some NODE) None
       = ''https://node.mainnet.klever.finance/r?2=null&10=7&b=a b&c''
   \<and> distinct (map fst [(''0'', JStr ''z''), (''page'', JNum 2)])
   \<and> getHost e0 (Some ''r'') (Some [(''0'', JStr ''z''), (''page'', JNum 2)]) (Some NODE) None
       = ''https://node.mainnet.klever.finance/r?0=z&page=2''"
  using
    query_in_Object_keys_order
      [of "[(''b'', JStr ''a b&c''), (''10'', JNum 7), (''2'', JNull)]" e0 "Some ''r''" "Some NODE" None]
    query_in_Object_keys_order
      [of "[(''0'', JStr ''z''), (''page'', JNum 2)]" e0 "Some ''r''" "Some NODE" None]
  by (simp add: getHost_closed_form hostService_def e0_def is_array_index_def is_digit_def
      decimal_value_def digit_value_def number_toString_def digit_char_def)

text \<open>
  Claim C7. For every route, query, service selector and API version, the port (when
  the environment configures one) and the API version segment follow the host exactly
  when the selector is PROXY; for NODE, and for a selector left undefined, the route
  follows the host directly.
\<close>

theorem port_and_version_iff_proxy:
  fixes e r q s v
  defines "host \<equiv> (let h = hostService e (service_or_0 s)
                    in if h \<noteq> [] \<and> last h = CHR ''/'' then butlast h else h)"
  defines "port \<equiv> or_else (DEFAULT_API_PORT e) []"
  defines "rest \<equiv> ''/'' @ hole r @ (case q of None \<Rightarrow> [] | Some x \<Rightarrow> ''?'' @ buildUrlQuery x)"
  shows "getHost e r q s v =
           (if s = Some PROXY
            then host @ (if port = [] then [] else '':'' @ port) @ ''/'' @ hole v @ rest
            else host @ rest)"
  unfolding host_def port_def rest_def by (simp add: getHost_closed_form)

theorem port_and_version_iff_proxy_witness:
  "getHost (e0\<lparr>DEFAULT_API_PORT := Some ''8080''\<rparr>) (Some ''node/list'') None (Some PROXY) (Some ''v1.0'')
     = ''https://api.mainnet.klever.finance:8080/v1.0/node/list''
   \<and> getHost (e0\<lparr>DEFAULT_API_PORT := Some ''8080''\<rparr>) (Some ''node/list'') None (Some NODE) (Some ''v1.0'')
     = ''https://node.mainnet.klever.finance/node/list''
   \<and> getHost (e0\<lparr>DEFAULT_API_PORT := Some ''8080''\<rparr>) (Some ''node/list'') None None (Some ''v1.0'')
     = ''https://api.mainnet.klever.finance/node/list''"
  using
    port_and_version_iff_proxy [of "e0\<lparr>DEFAULT_API_PORT := Some ''8080''\<rparr>" "Some ''node/list''" None
      "Some PROXY" "Some ''v1.0''"]
    port_and_version_iff_proxy [of "e0\<lparr>DEFAULT_API_PORT := Some ''8080''\<rparr>" "Some ''node/list''" None
      "Some NODE" "Some ''v1.0''"]
    port_and_version_iff_proxy [of "e0\<lparr>DEFAULT_API_PORT := Some ''8080''\<rparr>" "Some ''node/list''" None
      None "Some ''v1.0''"]
  by (simp add: hostService_def e0_def)

text \<open>
  Claim C8. For every selected host, one trailing slash is stripped when the host ends
  in one, and the host is used as it is otherwise; a host that ends in two slashes
  keeps one of them. \<open>rest\<close> is what follows the host in the URL.
\<close>

theorem strips_one_trailing_slash:
  fixes e r q s v
  defines "rest \<equiv>
     (if s = Some PROXY
      then (if or_else (DEFAULT_API_PORT e) [] \<noteq> [] then '':'' @ or_else (DEFAULT_API_PORT e) [] else [])
           @ ''/'' @ hole v
      else [])
     @ ''/'' @ hole r @ (case q of None \<Rightarrow> [] | Some x \<Rightarrow> ''?'' @ buildUrlQuery x)"
  shows "(hostService e (service_or_0 s) = b @ ''/'' \<longrightarrow> getHost e r q s v = b @ rest)
     \<and> (hostService e (service_or_0 s) = c @ ''//'' \<longrightarrow> getHost e r q s v = c @ ''/'' @ rest)
     \<and> ((\<forall>a. hostService e (service_or_0 s) \<noteq> a @ ''/'') \<longrightarrow>
          getHost e r q s v = hostService e (service_or_0 s) @ rest)"
proof -
  have ends: "(\<forall>a. h \<noteq> a @ ''/'') \<longleftrightarrow> \<not> (h \<noteq> [] \<and> last h = CHR ''/'')" for h :: string
  proof (cases h rule: rev_cases)
    case Nil
    then show ?thesis by simp
  next
    case (snoc ys y)
    then show ?thesis by auto
  qed
  show ?thesis
    unfolding rest_def by (simp add: getHost_closed_form ends Let_def butlast_append)
qed

theorem strips_one_trailing_slash_witness:
  "getHost (e0\<lparr>DEFAULT_NODE_HOST := Some ''http://h/''\<rparr>) (Some ''r'') None (Some NODE) None = ''http://h/r''
   \<and> getHost (e0\<lparr>DEFAULT_NODE_HOST := Some ''http://h//''\<rparr>) (Some ''r'') None (Some NODE) None = ''http://h//r''
   \<and> getHost (e0\<lparr>DEFAULT_NODE_HOST := Some ''http://h''\<rparr>) (Some ''r'') None (Some NODE) None = ''http://h/r''"
  using
    strips_one_trailing_slash [of "e0\<lparr>DEFAULT_NODE_HOST := Some ''http://h/''\<rparr>" "Some NODE"
      "''http://h''" "Some ''r''" None None "[]"]
    strips_one_trailing_slash [of "e0\<lparr>DEFAULT_NODE_HOST := Some ''http://h//''\<rparr>" "Some NODE"
      "''http://h/''" "Some ''r''" None None "''http://h''"]
    strips_one_trailing_slash [of "e0\<lparr>DEFAULT_NODE_HOST := Some ''http://h''\<rparr>" "Some NODE"
      "[]" "Some ''r''" None None "[]"]
  by (simp add: hostService_def e0_def)

text \<open>
  Claim C10. A query mapping with no keys is still a supplied mapping: the URL is the
  URL without a query followed by a bare \<open>?\<close>. Every supplied mapping adds the
  \<open>?\<close>; only an absent one leaves it out, and then the URL ends with the route.
\<close>

theorem getHost_empty_query:
  fixes e r q s v
  defines "host \<equiv>
     (let h = hostService e (service_or_0 s) in if h \<noteq> [] \<and> last h = CHR ''/'' then butlast h else h)
     @ (if s = Some PROXY
        then (if or_else (DEFAULT_API_PORT e) [] \<noteq> [] then '':'' @ or_else (DEFAULT_API_PORT e) [] else [])
             @ ''/'' @ hole v
        else [])"
  shows "getHost e r (Some []) s v = host @ ''/'' @ hole r @ ''?''
   \<and> getHost e r (Some q) s v = host @ ''/'' @ hole r @ ''?'' @ buildUrlQuery q
   \<and> getHost e r None s v = host @ ''/'' @ hole r"
  unfolding host_def by (simp add: getHost_closed_form buildUrlQuery_def Object_keys_def)

section \<open>Request executors: claims\<close>

text \<open>
  Claim C2. For each of the three executors and every response whose status indicates
  failure, where the body parses as JSON to a value that has fields (any value but
  null), the executor's promise is fulfilled with the object
  \<open>{data: null, error: e, code: "internal_error"}\<close>, where \<open>e\<close> is the \<open>error\<close>
  field of the parsed body: the value under the key \<open>error\<close> when the body is an object
  that has the key, and undefined otherwise. With the body \<open>{"error":"bad"}\<close> the result
  is \<open>{data: null, error: "bad", code: "internal_error"}\<close>. The with-body executor
  reaches the HTTP call when the serialization of the payload returns.
\<close>

theorem executors_failure_status:
  fixes parsed :: jsval
  defines "result \<equiv>
     Obj [(''data'', Prim JNull),
          (''error'', case parsed of
                        Obj kvs \<Rightarrow> (case map_of kvs ''error'' of Some x \<Rightarrow> x | None \<Rightarrow> Prim JUndefined)
                      | _ \<Rightarrow> Prim JUndefined),
          (''code'', Prim (JStr ''internal_error''))]"
  assumes "\<And>url init. fetch url init = Fulfils t response" and "\<not> ok response"
    and "json response = Fulfils u parsed"
    and "parsed \<noteq> Prim JNull" and "parsed \<noteq> Prim JUndefined"
  shows "withoutBody e fetch props m = Fulfils (t + u) result
     \<and> withText e fetch props m = Fulfils (t + u) result
     \<and> (JSON_stringify (getProps e props body) = Inr serialized \<longrightarrow>
          withBody e fetch JSON_stringify props m = Fulfils (t + u) result)"
proof -
  have "dot_error parsed = Inr (case parsed of
            Obj kvs \<Rightarrow> (case map_of kvs ''error'' of Some x \<Rightarrow> x | None \<Rightarrow> Prim JUndefined)
          | _ \<Rightarrow> Prim JUndefined)"
    using assms(5,6) by (cases parsed rule: dot_error.cases) simp_all
  with assms(2-4) show ?thesis
    unfolding result_def
    by (simp add: withoutBody_failure withBody_failure withText_failure envelope_def)
qed

theorem executors_failure_status_witness:
  "withoutBody e0 (\<lambda>url init. Fulfils 5 bad_response) props0 GET
     = Fulfils 6 (Obj [(''data'', Prim JNull), (''error'', Prim (JStr ''bad'')),
                       (''code'', Prim (JStr ''internal_error''))])
   \<and> withText e0 (\<lambda>url init. Fulfils 5 bad_response) props0 GET
     = Fulfils 6 (Obj [(''data'', Prim JNull), (''error'', Prim (JStr ''bad'')),
                       (''code'', Prim (JStr ''internal_error''))])
   \<and> withBody e0 (\<lambda>url init. Fulfils 5 bad_response) (\<lambda>v. Inr None) props0 POST
     = Fulfils 6 (Obj [(''data'', Prim JNull), (''error'', Prim (JStr ''bad'')),
                       (''code'', Prim (JStr ''internal_error''))])"
  using
    executors_failure_status [where fetch = "\<lambda>url init. Fulfils 5 bad_response" and t = 5
      and response = bad_response and u = 1 and parsed = "Obj [(''error'', Prim (JStr ''bad''))]"
      and e = e0 and props = props0 and m = GET
      and JSON_stringify = "\<lambda>v. Inr None" and serialized = None]
    executors_failure_status [where fetch = "\<lambda>url init. Fulfils 5 bad_response" and t = 5
      and response = bad_response and u = 1 and parsed = "Obj [(''error'', Prim (JStr ''bad''))]"
      and e = e0 and props = props0 and m = POST
      and JSON_stringify = "\<lambda>v. Inr None" and serialized = None]
  by (simp add: bad_response_def)

text \<open>
  Claim C4. For every response whose status indicates success, the no-body and the
  with-body executor are fulfilled with the parsed JSON body itself and the text
  executor with the response text itself, with no envelope around them: the body
  \<open>{"x":1}\<close> comes back as \<open>{"x":1}\<close>.
\<close>

theorem executors_success_verbatim:
  assumes "\<And>url init. fetch url init = Fulfils t response" and "ok response"
  shows "(json response = Fulfils u parsed \<longrightarrow> withoutBody e fetch props m = Fulfils (t + u) parsed)
     \<and> (json response = Fulfils u parsed \<and> JSON_stringify (getProps e props body) = Inr serialized \<longrightarrow>
          withBody e fetch JSON_stringify props m = Fulfils (t + u) parsed)
     \<and> (text_body response = Fulfils u s \<longrightarrow> withText e fetch props m = Fulfils (t + u) (Prim (JStr s)))"
  using assms by (simp add: withoutBody_def withBody_def withText_def return_def)

theorem executors_success_verbatim_witness:
  "withoutBody e0 (\<lambda>url init. Fulfils 5 good_response) props0 GET = Fulfils 6 (Obj [(''x'', Prim (JNum 1))])
   \<and> withBody e0 (\<lambda>url init. Fulfils 5 good_response) (\<lambda>v. Inr None) props0 POST
       = Fulfils 6 (Obj [(''x'', Prim (JNum 1))])
   \<and> withText e0 (\<lambda>url init. Fulfils 5 good_response) props0 GET = Fulfils 6 (Prim (JStr ''x is 1''))"
  using
    executors_success_verbatim [where fetch = "\<lambda>url init. Fulfils 5 good_response" and t = 5
      and response = good_response and u = 1 and parsed = "Obj [(''x'', Prim (JNum 1))]" and e = e0
      and props = props0 and m = GET and JSON_stringify = "\<lambda>v. Inr None" and serialized = None
      and s = "''x is 1''"]
    executors_success_verbatim [where fetch = "\<lambda>url init. Fulfils 5 good_response" and t = 5
      and response = good_response and u = 1 and parsed = "Obj [(''x'', Prim (JNum 1))]" and e = e0
      and props = props0 and m = POST and JSON_stringify = "\<lambda>v. Inr None" and serialized = None
      and s = "''x is 1''"]
  by (simp add: good_response_def)

text \<open>
  Claim C3 says that no executor and no facade operation ever rejects: every exception,
  a JSON parse failure among them, is caught and becomes an envelope. The \<open>try\<close>
  block catches what is thrown at an \<open>await\<close>, and the failure branch does await
  \<open>response.json()\<close>; the success branch returns \<open>response.json()\<close> (and
  \<open>response.text()\<close>) without \<open>await\<close>, so a rejection of that promise passes the
  \<open>catch\<close> clause by. For every successful response whose body fails to parse, the
  executor's promise is rejected with the parse error, and so is the facade's when the
  rejection comes before the timeout has elapsed.
\<close>

theorem unawaited_return_rejects:
  assumes "\<And>url init. fetch url init = Fulfils t response" and "ok response"
  shows "(json response = Rejects u reason \<longrightarrow>
            withoutBody e fetch props m = Rejects (t + u) reason
          \<and> (JSON_stringify (getProps e props body) = Inr serialized \<longrightarrow>
               withBody e fetch JSON_stringify props m = Rejects (t + u) reason)
          \<and> (t + u < 10000 \<longrightarrow> api_get tie e fetch props = Rejects (t + u) reason))
     \<and> (text_body response = Rejects u reason \<longrightarrow> withText e fetch props m = Rejects (t + u) reason)"
  using assms
  by (simp add: withoutBody_def withBody_def withText_def return_def api_get_def withTimeout_default
      withTimeout_cases)

theorem unawaited_return_rejects_witness:
  "withoutBody e0 (\<lambda>url init. Fulfils 5 malformed_response) props0 GET = Rejects 6 (Err ''SyntaxError'')
   \<and> withBody e0 (\<lambda>url init. Fulfils 5 malformed_response) (\<lambda>v. Inr None) props0 POST
       = Rejects 6 (Err ''SyntaxError'')
   \<and> api_get True e0 (\<lambda>url init. Fulfils 5 malformed_response) props0 = Rejects 6 (Err ''SyntaxError'')
   \<and> api_get False e0 (\<lambda>url init. Fulfils 5 malformed_response) props0 = Rejects 6 (Err ''SyntaxError'')
   \<and> withText e0 (\<lambda>url init. Fulfils 5 malformed_response) props0 GET = Rejects 6 (Err ''TypeError'')"
  using
    unawaited_return_rejects [where fetch = "\<lambda>url init. Fulfils 5 malformed_response" and t = 5
      and response = malformed_response and u = 1 and reason = "Err ''SyntaxError''" and e = e0
      and props = props0 and m = GET and JSON_stringify = "\<lambda>v. Inr None" and serialized = None
      and tie = True]
    unawaited_return_rejects [where fetch = "\<lambda>url init. Fulfils 5 malformed_response" and t = 5
      and response = malformed_response and u = 1 and reason = "Err ''SyntaxError''" and e = e0
      and props = props0 and m = POST and JSON_stringify = "\<lambda>v. Inr None" and serialized = None
      and tie = False]
    unawaited_return_rejects [where fetch = "\<lambda>url init. Fulfils 5 malformed_response" and t = 5
      and response = malformed_response and u = 1 and reason = "Err ''TypeError''" and e = e0
      and props = props0 and m = GET and JSON_stringify = "\<lambda>v. Inr None" and serialized = None
      and tie = True]
  by (simp add: malformed_response_def)

text \<open>
  The unawaited return is the only way out: whenever the no-body executor rejects, the
  HTTP call was fulfilled with a successful response whose \<open>json()\<close> promise rejected.
  A rejected HTTP call, a failed parse on the failure branch and a TypeError on a null
  body are all caught.
\<close>

lemma failure_branch_never_rejects:
  "await p (\<lambda>parsed. case dot_error parsed of Inl r \<Rightarrow> throw r
       | Inr error \<Rightarrow> return (Promise_resolve (envelope error))) = Fulfils T x
   \<Longrightarrow> \<exists>y. x = Fulfils 0 y"
  by (cases p) (auto simp: return_def throw_def Promise_resolve_def split: sum.splits)

lemma withoutBody_rejects_only_unawaited:
  assumes "withoutBody e fetch props m = Rejects T r"
  shows "\<exists>url init t response u.
           fetch url init = Fulfils t response \<and> ok response \<and> json response = Rejects u r \<and> T = t + u"
proof -
  let ?url = "getHost e (getProps e props route) (getProps e props query) (getProps e props service)
                (getProps e props apiVersion)"
  let ?init = "\<lparr> init_method = Method_toString m,
                 init_headers = [(''Content-Type'', ''application/json'')], init_body = None \<rparr>"
  show ?thesis
  proof (cases "fetch ?url ?init")
    case Never
    with assms show ?thesis by (simp add: withoutBody_def)
  next
    case (Rejects t x)
    with assms show ?thesis by (simp add: withoutBody_def return_def Promise_resolve_def)
  next
    case (Fulfils t response)
    show ?thesis
    proof (cases "ok response")
      case True
      with assms Fulfils have "later t (json response) = Rejects T r"
        by (simp add: withoutBody_def return_def)
      then obtain u where "json response = Rejects u r" "T = t + u"
        using later_Rejects by blast
      with Fulfils True show ?thesis by blast
    next
      case False
      let ?k = "\<lambda>parsed. case dot_error parsed of Inl r \<Rightarrow> throw r
                  | Inr error \<Rightarrow> return (Promise_resolve (envelope error))"
      from assms Fulfils False
      have *: "async (try_catch (later t (await (json response) ?k))
                 (\<lambda>error. return (Promise_resolve (envelope error)))) = Rejects T r"
        by (simp add: withoutBody_def)
      have False
      proof (cases "await (json response) ?k")
        case Never
        with * show False by simp
      next
        case (Fulfils t' x)
        then obtain y where "x = Fulfils 0 y"
          using failure_branch_never_rejects by blast
        with * Fulfils show False by simp
      next
        case (Rejects t' x)
        with * show False by (simp add: return_def Promise_resolve_def)
      qed
      then show ?thesis ..
    qed
  qed
qed

section \<open>Timeout racer and facade: claims\<close>

text \<open>
  Claim C5, as the specification states it: for every pending operation and every
  timeout duration, \<open>withTimeout\<close> follows whichever settles first, the operation or
  the elapsing of the duration. The duration goes to \<open>setTimeout\<close>, whose delay is a
  signed 32-bit integer: with the duration \<open>2^31\<close> the timer fires at once, and an
  operation that settles after 5000 units, long before the duration has elapsed, loses
  to the envelope.
\<close>

theorem timeout_race_counterexample:
  "withTimeout True (Fulfils 5000 (Prim JNull)) (Some 2147483648) = Fulfils 0 timeout_envelope
   \<and> withTimeout False (Fulfils 5000 (Prim JNull)) (Some 2147483648) = Fulfils 0 timeout_envelope
   \<and> withTimeout True (Fulfils 5000 (Prim JNull)) (Some 2147483648) \<noteq> Fulfils 5000 (Prim JNull)
   \<and> withTimeout False (Fulfils 5000 (Prim JNull)) (Some 2147483648) \<noteq> Fulfils 5000 (Prim JNull)
   \<and> (5000 :: nat) < 2147483648"
  by (simp add: withTimeout_def return_def first_settled_def setTimeout_delay_def)

text \<open>
  Claim C5, amended. For every pending operation and every timeout duration below
  \<open>2^31\<close> time units, \<open>withTimeout\<close> follows whichever settles first: an operation
  that settles before the duration has elapsed gives its own outcome at its own time,
  fulfilled or rejected; an operation that never settles, or settles only after the
  duration has elapsed, gives the envelope
  \<open>{data: null, error: "Fetch timeout", code: "internal_error"}\<close> at the moment the
  duration elapses. A call without a duration uses 10000. A facade call whose HTTP call
  never settles is fulfilled with that envelope at 10000, not before. All of it holds
  whichever way the platform orders two events due at the same moment.
\<close>

theorem timeout_race:
  assumes "d < 2147483648"
  shows "(settles_at p = None \<longrightarrow> withTimeout tie p (Some d) = Fulfils d timeout_envelope)
   \<and> (settles_at p = Some t \<and> t < d \<longrightarrow> withTimeout tie p (Some d) = p)
   \<and> (settles_at p = Some t \<and> d < t \<longrightarrow> withTimeout tie p (Some d) = Fulfils d timeout_envelope)
   \<and> withTimeout tie p None = withTimeout tie p (Some 10000)
   \<and> ((\<forall>url init. fetch url init = Never) \<longrightarrow>
         api_get tie e fetch props = Fulfils 10000 timeout_envelope
       \<and> api_text tie e fetch props = Fulfils 10000 timeout_envelope
       \<and> (JSON_stringify (getProps e props body) = Inr serialized \<longrightarrow>
            api_post tie e fetch JSON_stringify props = Fulfils 10000 timeout_envelope))"
  using assms
  by (simp add: withTimeout_cases withTimeout_default api_get_def api_text_def api_post_def
      return_def withoutBody_pending withText_pending withBody_pending)

theorem timeout_race_witness:
  "(3000 :: nat) < 2147483648
   \<and> withTimeout True Never (Some 3000) = Fulfils 3000 timeout_envelope
   \<and> withTimeout False (Fulfils 200 (Obj [(''x'', Prim (JNum 1))])) (Some 3000) = Fulfils 200 (Obj [(''x'', Prim (JNum 1))])
   \<and> withTimeout True (Rejects 200 (Err ''TypeError'')) (Some 3000) = Rejects 200 (Err ''TypeError'')
   \<and> withTimeout True (Fulfils 3001 (Obj [(''x'', Prim (JNum 1))])) (Some 3000) = Fulfils 3000 timeout_envelope
   \<and> api_get True e0 (\<lambda>url init. Never) props0
       = Fulfils 10000 (Obj [(''data'', Prim JNull), (''error'', Prim (JStr ''Fetch timeout'')),
                             (''code'', Prim (JStr ''internal_error''))])
   \<and> api_text False e0 (\<lambda>url init. Never) props0 = Fulfils 10000 timeout_envelope
   \<and> api_post False e0 (\<lambda>url init. Never) (\<lambda>v. Inr None) props0 = Fulfils 10000 timeout_envelope"
  using
    timeout_race [where p = Never and d = 3000 and t = 0 and fetch = "\<lambda>url init. Never" and e = e0
      and props = props0 and JSON_stringify = "\<lambda>v. Inr None" and serialized = None and tie = True]
    timeout_race [where p = "Fulfils 200 (Obj [(''x'', Prim (JNum 1))])" and d = 3000 and t = 200
      and fetch = "\<lambda>url init. Never" and e = e0 and props = props0
      and JSON_stringify = "\<lambda>v. Inr None" and serialized = None and tie = False]
    timeout_race [where p = "Rejects 200 (Err ''TypeError'')" and d = 3000 and t = 200
      and fetch = "\<lambda>url init. Never" and e = e0 and props = props0
      and JSON_stringify = "\<lambda>v. Inr None" and serialized = None and tie = True]
    timeout_race [where p = "Fulfils 3001 (Obj [(''x'', Prim (JNum 1))])" and d = 3000 and t = 3001
      and fetch = "\<lambda>url init. Never" and e = e0 and props = props0
      and JSON_stringify = "\<lambda>v. Inr None" and serialized = None and tie = True]
  by (simp add: timeout_envelope_def)

end
